theory Spec2Isabelle
  imports Main "HOL-Library.Word"
begin

section \<open>Data of package tile\<close>

text \<open>
  The series block iterator of \<^verbatim>\<open>src/dbnode/encoding/arrow/tile/series_block_iterator.go\<close>
  holds references to four collaborators (the cross-block reader, the recorder, the
  series frame iterator and the cross-block iterator) and calls their methods. The
  collaborators are heap objects that alias each other (the frame iterator is built
  around the recorder and is reset onto the cross-block iterator), so a reference is an
  address and every method call transforms one shared store.
\<close>

type_synonym addr = nat

text \<open>A Go \<^verbatim>\<open>error\<close> by its message; \<^verbatim>\<open>nil\<close> is \<open>None\<close>.\<close>

type_synonym error = string

text \<open>\<^verbatim>\<open>xtime.UnixNano\<close> is an \<^verbatim>\<open>int64\<close>; the iterator stores and passes it, and never
  computes on it.\<close>

type_synonym UnixNano = int

text \<open>A \<^verbatim>\<open>float64\<close> by its bit pattern: values are copied, never computed on.\<close>

type_synonym float64 = "64 word"

type_synonym ID = string

type_synonym TagIterator = "(string \<times> string) list"

record datapoint =
  timestamp :: UnixNano
  val :: float64

text \<open>What the encoded cursor of one block yields: a datapoint, or a decode error.\<close>

datatype reading = Point datapoint | Corrupt error

record BlockRecord =
  br_start :: UnixNano
  br_size :: int
  segment :: "reading list"

text \<open>The fields of \<^verbatim>\<open>Options\<close> that \<^verbatim>\<open>NewSeriesBlockIterator\<close> reads.\<close>

record Options =
  Start :: UnixNano
  FrameSize :: UnixNano
  UseArrow :: bool
  ReaderIteratorPool :: addr

text \<open>
  The struct \<^verbatim>\<open>seriesBlockIter\<close>, field by field. The interface values \<^verbatim>\<open>id\<close> and
  \<^verbatim>\<open>tags\<close> are \<^verbatim>\<open>nil\<close> until the first successful \<^verbatim>\<open>Next\<close>.
\<close>

record seriesBlockIter =
  reader :: addr
  err :: "error option"
  exhausted :: bool
  step :: UnixNano
  start :: UnixNano
  recorder :: addr
  iter :: addr
  blockIter :: addr
  tags :: "TagIterator option"
  id' :: "ID option"

section \<open>The collaborators, as an interface\<close>

text \<open>
  The methods the iterator calls on its collaborators are declared outside this file of
  the package. They are parameters: a store type \<open>'w\<close> and one function per method,
  taking the receiver's address. A reference is the address of an object: a nil
  collaborator, on which the first call would panic, is not a value of the model.
  \<^verbatim>\<open>Err\<close> and \<^verbatim>\<open>Current\<close> of the reader are observers: they return a value and leave
  the store as it is. \<^verbatim>\<open>release\<close> of the recorder and \<^verbatim>\<open>Close\<close> of the cross-block
  iterator are called as statements: the source binds no result of theirs. The
  constructors return the address of the object they make.
\<close>

record 'w collaborators =
  reader_Next :: "addr \<Rightarrow> 'w \<Rightarrow> bool \<times> 'w"
  reader_Err :: "addr \<Rightarrow> 'w \<Rightarrow> error option"
  reader_Current :: "addr \<Rightarrow> 'w \<Rightarrow> ID option \<times> TagIterator option \<times> BlockRecord list"
  NewGoAllocator :: "'w \<Rightarrow> addr \<times> 'w"
  newDatapointRecorder :: "addr \<Rightarrow> 'w \<Rightarrow> addr \<times> 'w"
  newFlatDatapointRecorder :: "'w \<Rightarrow> addr \<times> 'w"
  newSeriesFrameIterator :: "addr \<Rightarrow> 'w \<Rightarrow> addr \<times> 'w"
  NewCrossBlockIterator :: "addr \<Rightarrow> 'w \<Rightarrow> addr \<times> 'w"
  recorder_release :: "addr \<Rightarrow> 'w \<Rightarrow> 'w"
  blockIter_Reset :: "addr \<Rightarrow> BlockRecord list \<Rightarrow> 'w \<Rightarrow> 'w"
  blockIter_Close :: "addr \<Rightarrow> 'w \<Rightarrow> 'w"
  iter_Reset :: "addr \<Rightarrow> UnixNano \<Rightarrow> UnixNano \<Rightarrow> addr \<Rightarrow> 'w \<Rightarrow> 'w"
  iter_Close :: "addr \<Rightarrow> 'w \<Rightarrow> error option \<times> 'w"

section \<open>The series block iterator\<close>

text \<open>\<^verbatim>\<open>NewSeriesBlockIterator(reader, opts)\<close>: the recorder first, then the fields of the
  struct literal in their order. The second component is the returned \<^verbatim>\<open>error\<close>.\<close>

definition NewSeriesBlockIterator ::
  "'w collaborators \<Rightarrow> addr \<Rightarrow> Options \<Rightarrow> 'w \<Rightarrow> (seriesBlockIter \<times> error option) \<times> 'w" where
  "NewSeriesBlockIterator C rd opts w =
     (let (rec, w1) =
            (if UseArrow opts
             then (let (al, wa) = NewGoAllocator C w in newDatapointRecorder C al wa)
             else newFlatDatapointRecorder C w);
          (it, w2) = newSeriesFrameIterator C rec w1;
          (bi, w3) = NewCrossBlockIterator C (ReaderIteratorPool opts) w2
      in ((\<lparr>reader = rd, err = None, exhausted = False,
             step = FrameSize opts, start = Start opts,
             recorder = rec, iter = it, blockIter = bi,
             tags = None, id' = None\<rparr>, None), w3))"

definition Next :: "'w collaborators \<Rightarrow> seriesBlockIter \<Rightarrow> 'w \<Rightarrow> bool \<times> seriesBlockIter \<times> 'w" where
  "Next C b w =
     (if exhausted b \<or> err b \<noteq> None then (False, b, w)
      else
        (let (ok, w1) = reader_Next C (reader b) w in
         if \<not> ok
         then (False, b\<lparr>exhausted := True, err := reader_Err C (reader b) w1\<rparr>, w1)
         else
           (let (i, t, blockRecords) = reader_Current C (reader b) w1;
                b1 = b\<lparr>id' := i, tags := t\<rparr>;
                w2 = blockIter_Reset C (blockIter b1) blockRecords w1;
                w3 = iter_Reset C (iter b1) (start b1) (step b1) (blockIter b1) w2
            in (True, b1, w3))))"

definition Current :: "seriesBlockIter \<Rightarrow> addr \<times> ID option \<times> TagIterator option" where
  "Current b = (iter b, id' b, tags b)"

definition Close :: "'w collaborators \<Rightarrow> seriesBlockIter \<Rightarrow> 'w \<Rightarrow> error option \<times> seriesBlockIter \<times> 'w" where
  "Close C b w =
     (let w1 = recorder_release C (recorder b) w;
          w2 = blockIter_Close C (blockIter b) w1;
          (e, w3) = iter_Close C (iter b) w2
      in (e, b, w3))"

definition Err :: "seriesBlockIter \<Rightarrow> error option" where
  "Err b = err b"

subsection \<open>Sequences of calls\<close>

text \<open>A caller's program is a list of method calls; \<open>run\<close> performs them in order on the
  struct and the store, dropping the results.\<close>

datatype call = CallNext | CallCurrent | CallErr | CallClose

fun do_call :: "'w collaborators \<Rightarrow> call \<Rightarrow> seriesBlockIter \<times> 'w \<Rightarrow> seriesBlockIter \<times> 'w" where
  "do_call C CallNext (b, w) = snd (Next C b w)"
| "do_call C CallCurrent (b, w) = (b, w)"
| "do_call C CallErr (b, w) = (b, w)"
| "do_call C CallClose (b, w) = snd (Close C b w)"

fun run :: "'w collaborators \<Rightarrow> call list \<Rightarrow> seriesBlockIter \<times> 'w \<Rightarrow> seriesBlockIter \<times> 'w" where
  "run C [] s = s"
| "run C (c # cs) s = run C cs (do_call C c s)"

text \<open>The iterator is latched when \<^verbatim>\<open>Next\<close> takes its first branch.\<close>

definition latched :: "seriesBlockIter \<Rightarrow> bool" where
  "latched b = (exhausted b \<or> err b \<noteq> None)"

text \<open>No \<^verbatim>\<open>Next\<close> among the calls \<open>cs\<close>, performed from the state \<open>s\<close>, returns true.\<close>

fun no_success :: "'w collaborators \<Rightarrow> call list \<Rightarrow> seriesBlockIter \<times> 'w \<Rightarrow> bool" where
  "no_success C [] s = True"
| "no_success C (c # cs) s =
     ((c \<noteq> CallNext \<or> \<not> fst (Next C (fst s) (snd s))) \<and> no_success C cs (do_call C c s))"

section \<open>The collaborators, modelled from the specification\<close>

text \<open>
  The reader, the recorder, the cross-block iterator and the series frame iterator are
  not among the sources. The definitions of this section follow the specification's
  description of them, and serve as the concrete store on which the iterator is run.
\<close>

type_synonym series = "ID option \<times> TagIterator option \<times> BlockRecord list"

text \<open>Modelled from the spec: the external per-series reader (\<^verbatim>\<open>fs.CrossBlockReader\<close>) is
  missing. It holds the series still to come, the series it is positioned on, the
  failure it will meet when the series run out (none: plain exhaustion), and its
  sticky error.\<close>

record reader_obj =
  pending :: "series list"
  positioned :: "series option"
  failure :: "error option"
  rd_err :: "error option"

text \<open>Modelled from the spec: the shared allocator of the columnar recorder is missing. It
  counts the allocations it has handed out and not got back, and those returned.\<close>

record allocator_obj =
  outstanding :: nat
  returned :: nat

text \<open>Modelled from the spec: the recorder is missing. The columnar variant has its
  allocator, the flat one has none; \<open>holds\<close> says that the backing storage has not been
  released.\<close>

record recorder_obj =
  rec_alloc :: "addr option"
  points :: "datapoint list"
  holds :: bool

text \<open>Modelled from the spec: the cross-block iterator (\<^verbatim>\<open>fs.CrossBlockIterator\<close>) is
  missing. Its merge state is the readings still to come, block after block (the
  single-pass concatenation of section 4.1), and the latched decode error.\<close>

record crossBlock_obj =
  cb_pool :: addr
  cb_pending :: "reading list"
  cb_err :: "error option"

text \<open>Modelled from the spec: a frame is a run of datapoints of one window
  \<open>[start + k * step, start + (k + 1) * step)\<close>, \<open>k\<close> its index.\<close>

record frame =
  fr_index :: int
  fr_points :: "datapoint list"

text \<open>Modelled from the spec: the series frame iterator is missing. Its state is the
  start and step, the datapoint source, the recorder, the datapoint buffered for the
  next frame, the frame last produced and its error.\<close>

record frameIter_obj =
  fi_recorder :: addr
  fi_start :: UnixNano
  fi_step :: UnixNano
  fi_source :: "addr option"
  fi_buffered :: "datapoint option"
  fi_frame :: "frame option"
  fi_err :: "error option"

text \<open>Modelled from the spec: the objects of the store are the collaborators above.\<close>

datatype obj =
  Reader reader_obj
| Allocator allocator_obj
| Recorder recorder_obj
| CrossBlock crossBlock_obj
| FrameIter frameIter_obj

text \<open>The store: the objects by address, and the next address to allocate.\<close>

record store =
  objs :: "addr \<Rightarrow> obj option"
  fresh :: addr

definition put :: "addr \<Rightarrow> obj \<Rightarrow> store \<Rightarrow> store" where
  "put a x w = w\<lparr>objs := (objs w)(a := Some x)\<rparr>"

definition new_obj :: "obj \<Rightarrow> store \<Rightarrow> addr \<times> store" where
  "new_obj x w = (fresh w, w\<lparr>objs := (objs w)(fresh w := Some x), fresh := Suc (fresh w)\<rparr>)"

subsection \<open>The reader\<close>

text \<open>Modelled from the spec: \<^verbatim>\<open>Next() -> bool\<close> of the reader, "advance to next series;
  false on exhaustion or error". On a false \<^verbatim>\<open>Next()\<close> the failure, if any, becomes the
  sticky error.\<close>

definition sp_reader_Next :: "addr \<Rightarrow> store \<Rightarrow> bool \<times> store" where
  "sp_reader_Next a w =
     (case objs w a of
        Some (Reader r) \<Rightarrow>
          (case pending r of
             [] \<Rightarrow> (False, put a (Reader (r\<lparr>rd_err := failure r\<rparr>)) w)
           | s # ss \<Rightarrow> (True, put a (Reader (r\<lparr>pending := ss, positioned := Some s\<rparr>)) w))
      | _ \<Rightarrow> (False, w))"

text \<open>Modelled from the spec: \<^verbatim>\<open>Err() -> error\<close> of the reader, the "sticky error after a
  false Next()".\<close>

definition sp_reader_Err :: "addr \<Rightarrow> store \<Rightarrow> error option" where
  "sp_reader_Err a w = (case objs w a of Some (Reader r) \<Rightarrow> rd_err r | _ \<Rightarrow> None)"

text \<open>Modelled from the spec: \<^verbatim>\<open>Current() -> (id, tagIterator, []BlockRecord)\<close>, the
  "current series' identity, tags, and ordered block records".\<close>

definition sp_reader_Current :: "addr \<Rightarrow> store \<Rightarrow> series" where
  "sp_reader_Current a w =
     (case objs w a of
        Some (Reader r) \<Rightarrow> (case positioned r of Some s \<Rightarrow> s | None \<Rightarrow> (None, None, []))
      | _ \<Rightarrow> (None, None, []))"

subsection \<open>The recorder\<close>

text \<open>Modelled from the spec: \<^verbatim>\<open>memory.NewGoAllocator()\<close>, a new allocator with nothing
  handed out.\<close>

definition sp_NewGoAllocator :: "store \<Rightarrow> addr \<times> store" where
  "sp_NewGoAllocator w = new_obj (Allocator \<lparr>outstanding = 0, returned = 0\<rparr>) w"

text \<open>Modelled from the spec: the columnar variant, whose "backing storage is obtained from
  a shared memory arena/allocator".\<close>

definition sp_newDatapointRecorder :: "addr \<Rightarrow> store \<Rightarrow> addr \<times> store" where
  "sp_newDatapointRecorder al w =
     (let w1 = (case objs w al of
                  Some (Allocator m) \<Rightarrow> put al (Allocator (m\<lparr>outstanding := Suc (outstanding m)\<rparr>)) w
                | _ \<Rightarrow> w)
      in new_obj (Recorder \<lparr>rec_alloc = Some al, points = [], holds = True\<rparr>) w1)"

text \<open>Modelled from the spec: the flat variant, whose "backing storage is an ordinary
  resizable array of datapoint pairs".\<close>

definition sp_newFlatDatapointRecorder :: "store \<Rightarrow> addr \<times> store" where
  "sp_newFlatDatapointRecorder w = new_obj (Recorder \<lparr>rec_alloc = None, points = [], holds = True\<rparr>) w"

text \<open>Modelled from the spec: \<^verbatim>\<open>Release()\<close> "returns backing storage to its origin;
  idempotent"; for the columnar variant it "returns the columns to the allocator", for
  the flat variant it "is a no-op".\<close>

definition sp_release :: "addr \<Rightarrow> store \<Rightarrow> store" where
  "sp_release a w =
     (case objs w a of
        Some (Recorder r) \<Rightarrow>
          (case rec_alloc r of
             None \<Rightarrow> w
           | Some al \<Rightarrow>
               (if holds r
                then (let w1 = put a (Recorder (r\<lparr>points := [], holds := False\<rparr>)) w
                      in case objs w1 al of
                           Some (Allocator m) \<Rightarrow>
                             put al (Allocator (m\<lparr>outstanding := outstanding m - 1,
                                                   returned := Suc (returned m)\<rparr>)) w1
                         | _ \<Rightarrow> w1)
                else w))
      | _ \<Rightarrow> w)"

subsection \<open>The cross-block iterator\<close>

text \<open>Modelled from the spec: \<^verbatim>\<open>fs.NewCrossBlockIterator(pool)\<close>, a new cross-block
  iterator with no block records and no error.\<close>

definition sp_NewCrossBlockIterator :: "addr \<Rightarrow> store \<Rightarrow> addr \<times> store" where
  "sp_NewCrossBlockIterator pool w =
     new_obj (CrossBlock \<lparr>cb_pool = pool, cb_pending = [], cb_err = None\<rparr>) w"

text \<open>Modelled from the spec: \<^verbatim>\<open>Reset(blockRecords)\<close> "discards prior merge state and begins
  merging the given ordered collection of block records".\<close>

definition sp_blockIter_Reset :: "addr \<Rightarrow> BlockRecord list \<Rightarrow> store \<Rightarrow> store" where
  "sp_blockIter_Reset a recs w =
     (case objs w a of
        Some (CrossBlock c) \<Rightarrow>
          put a (CrossBlock (c\<lparr>cb_pending := concat (map segment recs), cb_err := None\<rparr>)) w
      | _ \<Rightarrow> w)"

text \<open>Modelled from the spec: \<^verbatim>\<open>Close()\<close> "releases any underlying per-block cursors".\<close>

definition sp_blockIter_Close :: "addr \<Rightarrow> store \<Rightarrow> store" where
  "sp_blockIter_Close a w =
     (case objs w a of
        Some (CrossBlock c) \<Rightarrow> put a (CrossBlock (c\<lparr>cb_pending := []\<rparr>)) w
      | _ \<Rightarrow> w)"

text \<open>Modelled from the spec: \<^verbatim>\<open>Err()\<close> of the cross-block iterator "returns the first
  decode/read error encountered, latched".\<close>

definition sp_blockIter_Err :: "addr \<Rightarrow> store \<Rightarrow> error option" where
  "sp_blockIter_Err a w = (case objs w a of Some (CrossBlock c) \<Rightarrow> cb_err c | _ \<Rightarrow> None)"

subsection \<open>The series frame iterator\<close>

text \<open>Modelled from the spec: "a datapoint with timestamp \<open>t\<close> belongs to frame
  \<open>k = floor((t - start) / step)\<close>". Integer division on \<open>int\<close> rounds down.\<close>

definition frame_index :: "UnixNano \<Rightarrow> UnixNano \<Rightarrow> UnixNano \<Rightarrow> int" where
  "frame_index st sp t = (t - st) div sp"

text \<open>Modelled from the spec: the frame a datapoint opens, the one its timestamp belongs
  to.\<close>

definition start_frame :: "UnixNano \<Rightarrow> UnixNano \<Rightarrow> datapoint \<Rightarrow> frame" where
  "start_frame st sp d = \<lparr>fr_index = frame_index st sp (timestamp d), fr_points = [d]\<rparr>"

text \<open>Modelled from the spec: why one \<^verbatim>\<open>Next()\<close> of the frame iterator stops pulling. The
  source is exhausted, a datapoint of a later frame was found, the source failed to
  decode, or a datapoint lies before the start.\<close>

datatype stop = Exhausted | Boundary datapoint | DecodeError error | BeforeStart

text \<open>Modelled from the spec: \<^verbatim>\<open>Next()\<close> of the frame iterator "pulls datapoints from the
  source until either (a) the source is exhausted, or (b) a datapoint is found whose
  computed frame index is greater than the current frame's index"; datapoints with
  \<open>t < start\<close> "must be rejected". The frame under construction is the first argument,
  the readings the source still holds the last; the result is the frame, the reason to
  stop and the readings left.\<close>

fun pull :: "UnixNano \<Rightarrow> UnixNano \<Rightarrow> frame option \<Rightarrow> reading list \<Rightarrow> frame option \<times> stop \<times> reading list" where
  "pull st sp cur [] = (cur, Exhausted, [])"
| "pull st sp cur (Corrupt e # rs) = (cur, DecodeError e, rs)"
| "pull st sp cur (Point d # rs) =
     (if timestamp d < st then (cur, BeforeStart, rs)
      else
        (case cur of
           None \<Rightarrow> pull st sp (Some (start_frame st sp d)) rs
         | Some f \<Rightarrow>
             (if fr_index f < frame_index st sp (timestamp d) then (cur, Boundary d, rs)
              else pull st sp (Some (f\<lparr>fr_points := fr_points f @ [d]\<rparr>)) rs)))"

text \<open>Modelled from the spec: \<^verbatim>\<open>newSeriesFrameIterator(recorder)\<close>, a new frame iterator
  around the recorder, bound to no source yet.\<close>

definition sp_newSeriesFrameIterator :: "addr \<Rightarrow> store \<Rightarrow> addr \<times> store" where
  "sp_newSeriesFrameIterator rec w =
     new_obj (FrameIter \<lparr>fi_recorder = rec, fi_start = 0, fi_step = 0, fi_source = None,
                         fi_buffered = None, fi_frame = None, fi_err = None\<rparr>) w"

text \<open>Modelled from the spec: \<^verbatim>\<open>Reset(start, step, datapointSource)\<close> "rebinds the windowing
  state to a new series without reallocating the Recorder".\<close>

definition sp_iter_Reset :: "addr \<Rightarrow> UnixNano \<Rightarrow> UnixNano \<Rightarrow> addr \<Rightarrow> store \<Rightarrow> store" where
  "sp_iter_Reset a st sp src w =
     (case objs w a of
        Some (FrameIter f) \<Rightarrow>
          put a (FrameIter (f\<lparr>fi_start := st, fi_step := sp, fi_source := Some src,
                              fi_buffered := None, fi_frame := None, fi_err := None\<rparr>)) w
      | _ \<Rightarrow> w)"

text \<open>Modelled from the spec: \<^verbatim>\<open>Next()\<close> of the frame iterator on the store. The frame is
  accumulated in the recorder and finalised as its snapshot; a decode error is latched
  in the source and "propagated up through the Frame Iterator's Err()"; "returns false
  once the source is exhausted and no buffered frame remains".\<close>

definition sp_iter_Next :: "addr \<Rightarrow> store \<Rightarrow> bool \<times> store" where
  "sp_iter_Next a w =
     (case objs w a of
        Some (FrameIter f) \<Rightarrow>
          (case fi_source f of
             None \<Rightarrow> (False, w)
           | Some src \<Rightarrow>
               (case objs w src of
                  Some (CrossBlock c) \<Rightarrow>
                    (if fi_err f \<noteq> None then (False, w)
                     else
                       (case pull (fi_start f) (fi_step f)
                               (map_option (start_frame (fi_start f) (fi_step f)) (fi_buffered f))
                               (cb_pending c) of
                          (cur, DecodeError e, rest) \<Rightarrow>
                            (False,
                             put a (FrameIter (f\<lparr>fi_buffered := None, fi_err := Some e\<rparr>))
                               (put src (CrossBlock (c\<lparr>cb_pending := [], cb_err := Some e\<rparr>)) w))
                        | (cur, BeforeStart, rest) \<Rightarrow>
                            (False,
                             put a (FrameIter (f\<lparr>fi_buffered := None,
                                                  fi_err := Some ''datapoint before start''\<rparr>))
                               (put src (CrossBlock (c\<lparr>cb_pending := rest\<rparr>)) w))
                        | (None, _, rest) \<Rightarrow>
                            (False, put src (CrossBlock (c\<lparr>cb_pending := rest\<rparr>)) w)
                        | (Some fr, how, rest) \<Rightarrow>
                            (let w1 = put src (CrossBlock (c\<lparr>cb_pending := rest\<rparr>)) w;
                                 w2 = (case objs w1 (fi_recorder f) of
                                         Some (Recorder r) \<Rightarrow>
                                           put (fi_recorder f) (Recorder (r\<lparr>points := fr_points fr\<rparr>)) w1
                                       | _ \<Rightarrow> w1)
                             in (True,
                                 put a (FrameIter
                                   (f\<lparr>fi_buffered := (case how of Boundary d \<Rightarrow> Some d | _ \<Rightarrow> None),
                                      fi_frame := Some fr\<rparr>)) w2))))
                | _ \<Rightarrow> (False, w)))
      | _ \<Rightarrow> (False, w))"

text \<open>Modelled from the spec: \<^verbatim>\<open>Err()\<close> of the frame iterator, the error it has met or
  has taken over from its source.\<close>

definition sp_iter_Err :: "addr \<Rightarrow> store \<Rightarrow> error option" where
  "sp_iter_Err a w = (case objs w a of Some (FrameIter f) \<Rightarrow> fi_err f | _ \<Rightarrow> None)"

text \<open>Modelled from the spec: \<^verbatim>\<open>Close()\<close> of the frame iterator "releases the Recorder and
  any buffered state". The specification names no failure of it: \<^verbatim>\<open>Release()\<close> has no
  result.\<close>

definition sp_iter_Close :: "addr \<Rightarrow> store \<Rightarrow> error option \<times> store" where
  "sp_iter_Close a w =
     (case objs w a of
        Some (FrameIter f) \<Rightarrow>
          (None, sp_release (fi_recorder f)
                   (put a (FrameIter (f\<lparr>fi_buffered := None, fi_frame := None\<rparr>)) w))
      | _ \<Rightarrow> (None, w))"

text \<open>The collaborators of the specification, as one implementation of the interface.\<close>

definition spec_collab :: "store collaborators" where
  "spec_collab =
     \<lparr>reader_Next = sp_reader_Next,
      reader_Err = sp_reader_Err,
      reader_Current = sp_reader_Current,
      NewGoAllocator = sp_NewGoAllocator,
      newDatapointRecorder = sp_newDatapointRecorder,
      newFlatDatapointRecorder = sp_newFlatDatapointRecorder,
      newSeriesFrameIterator = sp_newSeriesFrameIterator,
      NewCrossBlockIterator = sp_NewCrossBlockIterator,
      recorder_release = sp_release,
      blockIter_Reset = sp_blockIter_Reset,
      blockIter_Close = sp_blockIter_Close,
      iter_Reset = sp_iter_Reset,
      iter_Close = sp_iter_Close\<rparr>"

text \<open>A store that holds one reader, at address 0.\<close>

definition reader_store :: "series list \<Rightarrow> error option \<Rightarrow> store" where
  "reader_store ss fl =
     \<lparr>objs = (\<lambda>a. None)(0 := Some (Reader \<lparr>pending = ss, positioned = None,
                                             failure = fl, rd_err = None\<rparr>)),
      fresh = 1\<rparr>"

subsection \<open>The frames of a series\<close>

text \<open>A \<^verbatim>\<open>Next()\<close> that stops at a boundary has consumed the boundary datapoint.\<close>

lemma pull_Boundary_shorter:
  "pull st sp cur rs = (cur', Boundary d, rest) \<Longrightarrow> length rest < length rs"
  by (induction st sp cur rs rule: pull.induct) (auto split: if_splits option.splits)

text \<open>Modelled from the spec: the frames one series yields, by calling \<^verbatim>\<open>Next()\<close> of the
  frame iterator until it returns false. A frame is produced when a datapoint of a later
  frame is buffered, or when the source is exhausted with datapoints accumulated ("only
  frames containing at least one datapoint are emitted"); an error ends the iteration.\<close>

function frames :: "UnixNano \<Rightarrow> UnixNano \<Rightarrow> frame option \<Rightarrow> reading list \<Rightarrow> frame list" where
  "frames st sp cur rs =
     (case pull st sp cur rs of
        (Some f, Boundary d, rest) \<Rightarrow> f # frames st sp (Some (start_frame st sp d)) rest
      | (Some f, Exhausted, rest) \<Rightarrow> [f]
      | _ \<Rightarrow> [])"
  by pat_completeness auto
termination
  by (relation "measure (\<lambda>(st, sp, cur, rs). length rs)")
     (auto dest: pull_Boundary_shorter [OF sym])

declare frames.simps [simp del]

text \<open>Every datapoint of a frame lies in the window the frame's index names.\<close>

definition frame_ok :: "UnixNano \<Rightarrow> UnixNano \<Rightarrow> frame \<Rightarrow> bool" where
  "frame_ok st sp f = (\<forall>d \<in> set (fr_points f). frame_index st sp (timestamp d) = fr_index f)"

text \<open>The recorder at an address has no arena storage to give back: it is flat, or it
  has been released. An address that holds no recorder counts as released.\<close>

definition released :: "addr \<Rightarrow> store \<Rightarrow> bool" where
  "released a w =
     (case objs w a of Some (Recorder r) \<Rightarrow> rec_alloc r = None \<or> \<not> holds r | _ \<Rightarrow> True)"

text \<open>How many allocations the allocator at an address has got back.\<close>

definition returned_at :: "addr \<Rightarrow> store \<Rightarrow> nat" where
  "returned_at al w = (case objs w al of Some (Allocator m) \<Rightarrow> returned m | _ \<Rightarrow> 0)"

section \<open>Test collaborators and example stores\<close>

text \<open>Collaborators that only log the calls they receive, to observe the order of the
  calls: the store is the log. The reader reports \<open>has_next\<close>, and closing the frame
  iterator reports \<open>e\<close>.\<close>

definition trace_collab :: "bool \<Rightarrow> error option \<Rightarrow> (string list) collaborators" where
  "trace_collab has_next e =
     \<lparr>reader_Next = (\<lambda>a w. (has_next, w @ [''reader.Next''])),
      reader_Err = (\<lambda>a w. None),
      reader_Current = (\<lambda>a w. (Some ''series'', Some [], [])),
      NewGoAllocator = (\<lambda>w. (1, w @ [''memory.NewGoAllocator''])),
      newDatapointRecorder = (\<lambda>al w. (2, w @ [''newDatapointRecorder''])),
      newFlatDatapointRecorder = (\<lambda>w. (2, w @ [''newFlatDatapointRecorder''])),
      newSeriesFrameIterator = (\<lambda>r w. (3, w @ [''newSeriesFrameIterator''])),
      NewCrossBlockIterator = (\<lambda>p w. (4, w @ [''fs.NewCrossBlockIterator''])),
      recorder_release = (\<lambda>a w. w @ [''recorder.release'']),
      blockIter_Reset = (\<lambda>a rs w. w @ [''blockIter.Reset'']),
      blockIter_Close = (\<lambda>a w. w @ [''blockIter.Close'']),
      iter_Reset = (\<lambda>a st sp src w. w @ [''iter.Reset'']),
      iter_Close = (\<lambda>a w. (e, w @ [''iter.Close'']))\<rparr>"

definition example_opts :: Options where
  "example_opts = \<lparr>Start = 0, FrameSize = 10, UseArrow = True, ReaderIteratorPool = 99\<rparr>"

text \<open>A datapoint at a timestamp, of value zero.\<close>

definition dp :: "int \<Rightarrow> datapoint" where
  "dp t = \<lparr>timestamp = t, val = 0\<rparr>"

text \<open>A series whose only block fails to decode after its first datapoint.\<close>

definition cpu_series :: series where
  "cpu_series =
     (Some ''cpu'', Some [(''host'', ''a'')],
      [\<lparr>br_start = 0, br_size = 20, segment = [Point (dp 1), Corrupt ''checksum'']\<rparr>])"

definition mem_series :: series where
  "mem_series =
     (Some ''mem'', Some [(''host'', ''b'')],
      [\<lparr>br_start = 0, br_size = 10, segment = [Point (dp 1), Point (dp 9)]\<rparr>,
       \<lparr>br_start = 10, br_size = 10, segment = [Point (dp 10)]\<rparr>])"

text \<open>A reader that fails at once, and a reader of two series.\<close>

definition failing_store :: store where
  "failing_store = reader_store [] (Some ''disk'')"

definition two_series_store :: store where
  "two_series_store = reader_store [cpu_series, mem_series] None"

text \<open>The iterator constructed over the failing reader.\<close>

definition failing_start :: "(seriesBlockIter \<times> error option) \<times> store" where
  "failing_start = NewSeriesBlockIterator spec_collab 0 example_opts failing_store"

text \<open>Options whose frame size is zero, with the flat recorder.\<close>

definition zero_opts :: Options where
  "zero_opts = \<lparr>Start = 0, FrameSize = 0, UseArrow = False, ReaderIteratorPool = 99\<rparr>"

text \<open>A run over the reader of two series: the iterator is constructed and positioned on
  the first series, the caller pulls a frame and meets the corrupt block, then moves on
  to the second series.\<close>

definition two_start :: "(seriesBlockIter \<times> error option) \<times> store" where
  "two_start = NewSeriesBlockIterator spec_collab 0 example_opts two_series_store"

definition two_positioned :: "bool \<times> seriesBlockIter \<times> store" where
  "two_positioned = Next spec_collab (fst (fst two_start)) (snd two_start)"

definition two_pulled :: "bool \<times> store" where
  "two_pulled = sp_iter_Next (iter (fst (snd two_positioned))) (snd (snd two_positioned))"



definition two_moved :: "bool \<times> seriesBlockIter \<times> store" where
  "two_moved = Next spec_collab (fst (snd two_positioned)) (snd two_pulled)"

text \<open>The same iterator after both series have been positioned on.\<close>

definition two_done :: "seriesBlockIter \<times> store" where
  "two_done = run spec_collab [CallNext, CallNext] (fst (fst two_start), snd two_start)"

text \<open>A reader that yields one series and then fails, and the iterator over it after
  two calls of \<^verbatim>\<open>Next\<close>: positioned on the series, with the failure latched.\<close>

definition late_failure :: "seriesBlockIter \<times> store" where
  "late_failure =
     run spec_collab [CallNext, CallNext]
       (fst (fst (NewSeriesBlockIterator spec_collab 0 example_opts
          (reader_store [mem_series] (Some ''disk'')))),
        snd (NewSeriesBlockIterator spec_collab 0 example_opts
          (reader_store [mem_series] (Some ''disk''))))"

text \<open>The constructed iterator closed twice in a row.\<close>

definition two_closed :: "error option \<times> seriesBlockIter \<times> store" where
  "two_closed = Close spec_collab (fst (fst two_start)) (snd two_start)"

definition two_closed_again :: "error option \<times> seriesBlockIter \<times> store" where
  "two_closed_again = Close spec_collab (fst (snd two_closed)) (snd (snd two_closed))"

section \<open>Unfolding the model\<close>

lemmas spec_defs =
  spec_collab_def reader_store_def new_obj_def put_def
  sp_reader_Next_def sp_reader_Err_def sp_reader_Current_def
  sp_NewGoAllocator_def sp_newDatapointRecorder_def sp_newFlatDatapointRecorder_def
  sp_release_def sp_NewCrossBlockIterator_def sp_blockIter_Reset_def sp_blockIter_Close_def
  sp_newSeriesFrameIterator_def sp_iter_Reset_def sp_iter_Close_def

lemmas iter_defs = NewSeriesBlockIterator_def Next_def Current_def Close_def Err_def latched_def

lemmas example_defs = example_opts_def dp_def cpu_series_def mem_series_def failing_store_def
  two_series_store_def



section \<open>The struct under the calls\<close>


lemma latched_Next: "latched b \<Longrightarrow> Next C b w = (False, b, w)"
  by (simp add: Next_def latched_def)

lemma Next_False_latched: "\<not> fst (Next C b w) \<Longrightarrow> latched (fst (snd (Next C b w)))"
  by (auto simp: Next_def latched_def Let_def split: prod.splits if_splits)

lemma Close_struct: "fst (snd (Close C b w)) = b"
  by (simp add: Close_def Let_def split: prod.splits)

lemma do_call_latched: "latched b \<Longrightarrow> fst (do_call C c (b, w)) = b"
  by (cases c) (simp_all add: latched_Next Close_struct)

lemma run_latched: "latched b \<Longrightarrow> fst (run C cs (b, w)) = b"
proof (induction cs arbitrary: w)
  case Nil
  then show ?case by simp
next
  case (Cons c cs)
  obtain b1 w1 where s: "do_call C c (b, w) = (b1, w1)" by (cases "do_call C c (b, w)")
  with do_call_latched [OF Cons.prems, of C c w] have "b1 = b" by simp
  with Cons s show ?case by simp
qed

section \<open>Latched termination\<close>

text \<open>
  C1. Once \<^verbatim>\<open>Next()\<close> has returned false, then after every further sequence \<open>cs\<close> of
  calls (\<^verbatim>\<open>Next\<close>, \<^verbatim>\<open>Current\<close>, \<^verbatim>\<open>Err\<close>, \<^verbatim>\<open>Close\<close> in any order) \<^verbatim>\<open>Next()\<close> returns
  false again and \<^verbatim>\<open>Err()\<close> returns the error it returned right after the first false.
\<close>

theorem Next_latched:
  assumes "\<not> fst (Next C b w)"
  shows "\<not> fst (Next C (fst (run C cs (snd (Next C b w)))) (snd (run C cs (snd (Next C b w)))))
       \<and> Err (fst (run C cs (snd (Next C b w)))) = Err (fst (snd (Next C b w)))"
proof -
  obtain b' w' where s: "snd (Next C b w) = (b', w')" by (cases "snd (Next C b w)")
  from Next_False_latched [OF assms] s have l: "latched b'" by simp
  have "fst (run C cs (b', w')) = b'" by (rule run_latched [OF l])
  with s l show ?thesis by (simp add: latched_Next)
qed


lemma failing_first_Next:
  "Next spec_collab (fst (fst failing_start)) (snd failing_start)
   = (False, fst (fst failing_start)\<lparr>exhausted := True, err := Some ''disk''\<rparr>,
      put 0 (Reader \<lparr>pending = [], positioned = None, failure = Some ''disk'', rd_err = Some ''disk''\<rparr>) (snd failing_start))"
  by (simp add: failing_start_def iter_defs spec_defs example_defs Let_def)

theorem Next_latched_witness:
  "\<not> fst (Next spec_collab (fst (fst failing_start)) (snd failing_start))
   \<and> \<not> fst (Next spec_collab
        (fst (run spec_collab [CallNext, CallClose, CallErr, CallNext]
           (snd (Next spec_collab (fst (fst failing_start)) (snd failing_start)))))
        (snd (run spec_collab [CallNext, CallClose, CallErr, CallNext]
           (snd (Next spec_collab (fst (fst failing_start)) (snd failing_start))))))
   \<and> Err (fst (run spec_collab [CallNext, CallClose, CallErr, CallNext]
           (snd (Next spec_collab (fst (fst failing_start)) (snd failing_start)))))
     = Some ''disk''"
proof -
  have h: "\<not> fst (Next spec_collab (fst (fst failing_start)) (snd failing_start))"
    by (simp add: failing_first_Next)
  have e: "Err (fst (snd (Next spec_collab (fst (fst failing_start)) (snd failing_start)))) = Some ''disk''"
    by (simp add: failing_first_Next Err_def)
  from Next_latched [OF h, of "[CallNext, CallClose, CallErr, CallNext]"] h e
  show ?thesis by simp
qed

section \<open>Fields no call assigns\<close>

lemma two_start_struct:
  "fst two_start = (\<lparr>reader = 0, err = None, exhausted = False, step = 10, start = 0,
      recorder = 2, iter = 3, blockIter = 4, tags = None, id' = None\<rparr>, None)"
  by (simp add: two_start_def iter_defs spec_defs example_defs Let_def)

lemma Next_fixed_fields:
  "reader (fst (snd (Next C b w))) = reader b \<and> start (fst (snd (Next C b w))) = start b
   \<and> step (fst (snd (Next C b w))) = step b \<and> recorder (fst (snd (Next C b w))) = recorder b
   \<and> iter (fst (snd (Next C b w))) = iter b \<and> blockIter (fst (snd (Next C b w))) = blockIter b"
  by (simp add: Next_def Let_def split: prod.splits)

lemma do_call_fixed_fields:
  "reader (fst (do_call C c (b, w))) = reader b \<and> start (fst (do_call C c (b, w))) = start b
   \<and> step (fst (do_call C c (b, w))) = step b \<and> recorder (fst (do_call C c (b, w))) = recorder b
   \<and> iter (fst (do_call C c (b, w))) = iter b \<and> blockIter (fst (do_call C c (b, w))) = blockIter b"
  by (cases c) (simp_all add: Next_fixed_fields Close_struct)

lemma run_fixed_fields:
  "reader (fst (run C cs (b, w))) = reader b \<and> start (fst (run C cs (b, w))) = start b
   \<and> step (fst (run C cs (b, w))) = step b \<and> recorder (fst (run C cs (b, w))) = recorder b
   \<and> iter (fst (run C cs (b, w))) = iter b \<and> blockIter (fst (run C cs (b, w))) = blockIter b"
proof (induction cs arbitrary: b w)
  case Nil
  show ?case by simp
next
  case (Cons c cs)
  obtain b1 w1 where s: "do_call C c (b, w) = (b1, w1)" by (cases "do_call C c (b, w)")
  from do_call_fixed_fields [of C c b w] s Cons.IH [of b1 w1] show ?case by simp
qed

lemma New_fields:
  "reader (fst (fst (NewSeriesBlockIterator C rd opts w))) = rd
   \<and> start (fst (fst (NewSeriesBlockIterator C rd opts w))) = Start opts
   \<and> step (fst (fst (NewSeriesBlockIterator C rd opts w))) = FrameSize opts
   \<and> err (fst (fst (NewSeriesBlockIterator C rd opts w))) = None
   \<and> exhausted (fst (fst (NewSeriesBlockIterator C rd opts w))) = False
   \<and> id' (fst (fst (NewSeriesBlockIterator C rd opts w))) = None
   \<and> tags (fst (fst (NewSeriesBlockIterator C rd opts w))) = None"
  by (simp add: NewSeriesBlockIterator_def Let_def split: prod.splits)

section \<open>Close\<close>

text \<open>
  C3. In every state \<^verbatim>\<open>Close()\<close> releases the recorder, then closes the cross-block
  iterator on the store that leaves, then closes the series frame iterator on the store
  that leaves: three calls in this order, none skipped. The first two are statements
  without a result, so the error of the third is the first error among the three, and
  it is what \<^verbatim>\<open>Close()\<close> returns.
\<close>

theorem Close_releases_all:
  "Close C b w =
     (fst (iter_Close C (iter b)
        (blockIter_Close C (blockIter b) (recorder_release C (recorder b) w))),
      b,
      snd (iter_Close C (iter b)
        (blockIter_Close C (blockIter b) (recorder_release C (recorder b) w))))"
  by (simp add: Close_def Let_def split: prod.splits)

theorem Close_releases_all_witness:
  "Close (trace_collab True (Some ''busy'')) (fst (fst two_start)) []
   = (Some ''busy'', fst (fst two_start), [''recorder.release'', ''blockIter.Close'', ''iter.Close''])"
  using Close_releases_all [of "trace_collab True (Some ''busy'')" "fst (fst two_start)" "[]"]
  by (simp add: trace_collab_def)

section \<open>Construction\<close>

text \<open>
  C4, as amended. \<^verbatim>\<open>NewSeriesBlockIterator\<close> validates nothing: for every options value,
  also one whose frame size is zero or negative, it returns a nil error, and the
  iterator's step is that frame size.
\<close>

theorem New_never_rejects:
  "snd (fst (NewSeriesBlockIterator C rd opts w)) = None
   \<and> step (fst (fst (NewSeriesBlockIterator C rd opts w))) = FrameSize opts"
  by (simp add: NewSeriesBlockIterator_def Let_def split: prod.splits)

theorem New_never_rejects_witness:
  "snd (fst (NewSeriesBlockIterator spec_collab 0 (example_opts\<lparr>FrameSize := - 5\<rparr>) two_series_store)) = None
   \<and> step (fst (fst (NewSeriesBlockIterator spec_collab 0 (example_opts\<lparr>FrameSize := - 5\<rparr>) two_series_store))) = - 5"
  using New_never_rejects [of spec_collab 0 "example_opts\<lparr>FrameSize := - 5\<rparr>" two_series_store]
  by simp

text \<open>A frame size of zero is accepted.\<close>

theorem New_rejects_counterexample:
  "FrameSize zero_opts \<le> 0
   \<and> snd (fst (NewSeriesBlockIterator spec_collab 0 zero_opts two_series_store)) = None"
  by (simp add: zero_opts_def NewSeriesBlockIterator_def Let_def split: prod.splits)

text \<open>
  C7. \<^verbatim>\<open>NewSeriesBlockIterator\<close> takes the recorder from \<^verbatim>\<open>newDatapointRecorder\<close> when
  \<^verbatim>\<open>UseArrow\<close> is set and from \<^verbatim>\<open>newFlatDatapointRecorder\<close> otherwise, and no sequence
  of calls of \<^verbatim>\<open>Next\<close>, \<^verbatim>\<open>Current\<close>, \<^verbatim>\<open>Err\<close> and \<^verbatim>\<open>Close\<close> assigns the recorder field.
\<close>

theorem recorder_chosen_once:
  "recorder (fst (fst (NewSeriesBlockIterator C rd opts w))) =
     (if UseArrow opts
      then fst (newDatapointRecorder C (fst (NewGoAllocator C w)) (snd (NewGoAllocator C w)))
      else fst (newFlatDatapointRecorder C w))
   \<and> recorder (fst (run C cs (b, w'))) = recorder b"
  by (simp add: run_fixed_fields NewSeriesBlockIterator_def Let_def split: prod.splits)

theorem recorder_chosen_once_witness:
  "snd (NewSeriesBlockIterator (trace_collab True None) 0 example_opts [])
     = [''memory.NewGoAllocator'', ''newDatapointRecorder'', ''newSeriesFrameIterator'',
        ''fs.NewCrossBlockIterator'']
   \<and> snd (NewSeriesBlockIterator (trace_collab True None) 0 zero_opts [])
     = [''newFlatDatapointRecorder'', ''newSeriesFrameIterator'', ''fs.NewCrossBlockIterator'']
   \<and> recorder (fst (fst two_start)) = 2
   \<and> recorder (fst (run spec_collab [CallNext, CallClose, CallNext, CallNext, CallErr, CallClose]
        (fst (fst two_start), snd two_start))) = 2"
  using recorder_chosen_once [of spec_collab 0 example_opts two_series_store
      "[CallNext, CallClose, CallNext, CallNext, CallErr, CallClose]" "fst (fst two_start)" "snd two_start"]
  by (simp add: two_start_struct NewSeriesBlockIterator_def trace_collab_def example_opts_def zero_opts_def)

section \<open>A successful Next\<close>

lemma Next_advance:
  assumes "\<not> latched b" and "fst (reader_Next C (reader b) w)"
  shows "Next C b w =
     (True,
      b\<lparr>id' := fst (reader_Current C (reader b) (snd (reader_Next C (reader b) w))),
        tags := fst (snd (reader_Current C (reader b) (snd (reader_Next C (reader b) w))))\<rparr>,
      iter_Reset C (iter b) (start b) (step b) (blockIter b)
        (blockIter_Reset C (blockIter b)
           (snd (snd (reader_Current C (reader b) (snd (reader_Next C (reader b) w)))))
           (snd (reader_Next C (reader b) w))))"
  using assms
  by (cases "reader_Next C (reader b) w") (auto simp: Next_def latched_def Let_def split: prod.splits)

text \<open>
  C5. In every state reached from the constructor by a sequence \<open>cs\<close> of calls, when the
  iterator is not latched and the reader advances, \<^verbatim>\<open>Next()\<close> takes id, tags and block
  records from the reader's \<^verbatim>\<open>Current()\<close>, resets the cross-block iterator made by the
  constructor with those block records, resets the frame iterator made by the
  constructor with the configured start and step and that cross-block iterator, and
  returns true; \<^verbatim>\<open>Current()\<close> then returns that frame iterator, that id and those tags.
\<close>

theorem Next_positions:
  fixes C :: "'w collaborators" and rd opts wi cs
  defines "b0 \<equiv> fst (fst (NewSeriesBlockIterator C rd opts wi))"
  defines "s \<equiv> run C cs (b0, snd (NewSeriesBlockIterator C rd opts wi))"
  defines "w1 \<equiv> snd (reader_Next C rd (snd s))"
  defines "cur \<equiv> reader_Current C rd w1"
  assumes "\<not> latched (fst s)" and "fst (reader_Next C rd (snd s))"
  shows "Next C (fst s) (snd s) =
           (True, (fst s)\<lparr>id' := fst cur, tags := fst (snd cur)\<rparr>,
            iter_Reset C (iter b0) (Start opts) (FrameSize opts) (blockIter b0)
              (blockIter_Reset C (blockIter b0) (snd (snd cur)) w1))
         \<and> Current (fst (snd (Next C (fst s) (snd s)))) = (iter b0, fst cur, fst (snd cur))
         \<and> recorder (fst (snd (Next C (fst s) (snd s)))) = recorder b0
         \<and> iter (fst (snd (Next C (fst s) (snd s)))) = iter b0
         \<and> blockIter (fst (snd (Next C (fst s) (snd s)))) = blockIter b0"
proof -
  obtain b w where s: "s = (b, w)" by (cases s)
  have f: "reader b = rd" "start b = Start opts" "step b = FrameSize opts"
    "iter b = iter b0" "blockIter b = blockIter b0" "recorder b = recorder b0"
    using run_fixed_fields [of C cs b0 "snd (NewSeriesBlockIterator C rd opts wi)"]
      New_fields [of C rd opts wi] s
    by (simp_all add: s_def [symmetric] b0_def [symmetric])
  from assms(5,6) s f have "\<not> latched b" "fst (reader_Next C (reader b) w)" by simp_all
  from Next_advance [OF this] s f show ?thesis
    by (simp add: Current_def w1_def cur_def)
qed

theorem Next_positions_witness:
  "\<not> latched (fst (run spec_collab [CallNext] (fst (fst two_start), snd two_start)))
   \<and> fst (reader_Next spec_collab 0 (snd (run spec_collab [CallNext] (fst (fst two_start), snd two_start))))
   \<and> fst (Next spec_collab (fst (run spec_collab [CallNext] (fst (fst two_start), snd two_start)))
        (snd (run spec_collab [CallNext] (fst (fst two_start), snd two_start))))
   \<and> Current (fst (snd (Next spec_collab (fst (run spec_collab [CallNext] (fst (fst two_start), snd two_start)))
        (snd (run spec_collab [CallNext] (fst (fst two_start), snd two_start))))))
     = (3, Some ''mem'', Some [(''host'', ''b'')])"
proof -
  let ?s = "run spec_collab [CallNext] (fst (fst two_start), snd two_start)"
  have h1: "\<not> latched (fst ?s)"
    by (simp add: two_start_def iter_defs spec_defs example_defs Let_def)
  have h2: "fst (reader_Next spec_collab 0 (snd ?s))"
    by (simp add: two_start_def iter_defs spec_defs example_defs Let_def)
  have c: "reader_Current spec_collab 0 (snd (reader_Next spec_collab 0 (snd ?s))) = mem_series"
    by (simp add: two_start_def iter_defs spec_defs example_defs Let_def)
  note t = Next_positions [where C = spec_collab and rd = 0 and opts = example_opts
      and wi = two_series_store and cs = "[CallNext]",
      folded two_start_def, OF h1 h2]
  from t [THEN conjunct1] have "fst (Next spec_collab (fst ?s) (snd ?s))"
    by (simp only: fst_conv)
  moreover from t [THEN conjunct2, THEN conjunct1] have "Current (fst (snd (Next spec_collab (fst ?s) (snd ?s))))
      = (iter (fst (fst two_start)), fst mem_series, fst (snd mem_series))"
    by (simp only: c)
  ultimately show ?thesis using h1 h2
    by (simp add: two_start_struct mem_series_def)
qed

section \<open>Close and the cursor\<close>

text \<open>
  C9. In every state, latched or not, \<^verbatim>\<open>Close()\<close> leaves the struct as it was: the
  exhausted flag, the latched error, the id and the tag iterator are unchanged. When
  the iterator is not latched, a \<^verbatim>\<open>Next()\<close> after \<^verbatim>\<open>Close()\<close> advances the reader on
  the store \<^verbatim>\<open>Close()\<close> left, returns what the reader's \<^verbatim>\<open>Next()\<close> returns, and resets
  the two inner iterators when that is true.
\<close>

theorem Close_keeps_cursor:
  "fst (snd (Close C b w)) = b
   \<and> exhausted (fst (snd (Close C b w))) = exhausted b
   \<and> err (fst (snd (Close C b w))) = err b
   \<and> id' (fst (snd (Close C b w))) = id' b
   \<and> tags (fst (snd (Close C b w))) = tags b
   \<and> (\<not> latched b \<longrightarrow>
        fst (Next C (fst (snd (Close C b w))) (snd (snd (Close C b w))))
          = fst (reader_Next C (reader b) (snd (snd (Close C b w))))
        \<and> snd (snd (Next C (fst (snd (Close C b w))) (snd (snd (Close C b w)))))
          = (if fst (reader_Next C (reader b) (snd (snd (Close C b w))))
             then iter_Reset C (iter b) (start b) (step b) (blockIter b)
                    (blockIter_Reset C (blockIter b)
                       (snd (snd (reader_Current C (reader b)
                          (snd (reader_Next C (reader b) (snd (snd (Close C b w))))))))
                       (snd (reader_Next C (reader b) (snd (snd (Close C b w))))))
             else snd (reader_Next C (reader b) (snd (snd (Close C b w))))))"
  by (simp add: Close_struct Next_def latched_def Let_def split: prod.splits)

lemma late_failure_struct:
  "fst late_failure = \<lparr>reader = 0, err = Some ''disk'', exhausted = True, step = 10, start = 0,
      recorder = 2, iter = 3, blockIter = 4, tags = Some [(''host'', ''b'')], id' = Some ''mem''\<rparr>"
  by (simp add: late_failure_def iter_defs spec_defs example_defs Let_def)

theorem Close_keeps_cursor_witness:
  "exhausted (fst late_failure) \<and> err (fst late_failure) = Some ''disk''
   \<and> exhausted (fst (snd (Close spec_collab (fst late_failure) (snd late_failure))))
   \<and> err (fst (snd (Close spec_collab (fst late_failure) (snd late_failure)))) = Some ''disk''
   \<and> id' (fst (snd (Close spec_collab (fst late_failure) (snd late_failure)))) = Some ''mem''
   \<and> tags (fst (snd (Close spec_collab (fst late_failure) (snd late_failure))))
       = Some [(''host'', ''b'')]
   \<and> \<not> latched (fst (fst two_start))
   \<and> fst (Next spec_collab (fst (snd (Close spec_collab (fst (fst two_start)) (snd two_start))))
        (snd (snd (Close spec_collab (fst (fst two_start)) (snd two_start)))))
   \<and> Current (fst (snd (Next spec_collab (fst (snd (Close spec_collab (fst (fst two_start)) (snd two_start))))
        (snd (snd (Close spec_collab (fst (fst two_start)) (snd two_start)))))))
      = (3, Some ''cpu'', Some [(''host'', ''a'')])"
proof -
  have h: "\<not> latched (fst (fst two_start))"
    by (simp add: two_start_struct latched_def)
  have r: "fst (reader_Next spec_collab (reader (fst (fst two_start)))
      (snd (snd (Close spec_collab (fst (fst two_start)) (snd two_start)))))"
    by (simp add: two_start_def iter_defs spec_defs example_defs Let_def)
  have c: "Current (fst (snd (Next spec_collab (fst (snd (Close spec_collab (fst (fst two_start)) (snd two_start))))
        (snd (snd (Close spec_collab (fst (fst two_start)) (snd two_start)))))))
      = (3, Some ''cpu'', Some [(''host'', ''a'')])"
    by (simp add: two_start_def iter_defs spec_defs example_defs Let_def)
  have s: "fst (snd (Close spec_collab (fst late_failure) (snd late_failure))) = fst late_failure"
    using Close_keeps_cursor [of spec_collab "fst late_failure" "snd late_failure"]
    by (rule conjunct1)
  have l: "exhausted (fst late_failure)" "err (fst late_failure) = Some ''disk''"
    "id' (fst late_failure) = Some ''mem''" "tags (fst late_failure) = Some [(''host'', ''b'')]"
    by (simp_all add: late_failure_struct)
  have n: "fst (Next spec_collab (fst (snd (Close spec_collab (fst (fst two_start)) (snd two_start))))
        (snd (snd (Close spec_collab (fst (fst two_start)) (snd two_start)))))"
    unfolding Close_keeps_cursor [of spec_collab "fst (fst two_start)" "snd two_start",
        THEN conjunct2, THEN conjunct2, THEN conjunct2, THEN conjunct2, THEN conjunct2,
        THEN mp, OF h, THEN conjunct1]
    by (rule r)
  show ?thesis
    unfolding s by (intro conjI l h n c)
qed

section \<open>Current\<close>

lemma do_call_Current:
  "(c = CallNext \<and> fst (Next C b w)) \<or> Current (fst (do_call C c (b, w))) = Current b"
  by (cases c) (auto simp: Close_struct Next_def Current_def Let_def split: prod.splits)

lemma run_no_success:
  "no_success C cs (b, w) \<Longrightarrow> Current (fst (run C cs (b, w))) = Current b"
proof (induction cs arbitrary: b w)
  case Nil
  show ?case by simp
next
  case (Cons c cs)
  obtain b1 w1 where s: "do_call C c (b, w) = (b1, w1)" by (cases "do_call C c (b, w)")
  from Cons.prems s have n: "no_success C cs (b1, w1)"
    and u: "c \<noteq> CallNext \<or> \<not> fst (Next C b w)" by simp_all
  from do_call_Current [of c C b w] u s have "Current b1 = Current b" by auto
  with Cons.IH [OF n] s show ?case by simp
qed

text \<open>
  C10. \<^verbatim>\<open>Current()\<close> only reads three fields. The frame iterator it returns is the one
  the constructor made; as long as no \<^verbatim>\<open>Next()\<close> has returned true it comes with a nil id
  and nil tags; a \<^verbatim>\<open>Next()\<close> that returns false and every call after it leave the result
  of \<^verbatim>\<open>Current()\<close> as it was, and so does every call but a \<^verbatim>\<open>Next()\<close> that returns true.
\<close>

theorem Current_total:
  fixes C :: "'w collaborators" and rd opts wi cs
  defines "s0 \<equiv> NewSeriesBlockIterator C rd opts wi"
  defines "rw \<equiv> (if UseArrow opts
                 then newDatapointRecorder C (fst (NewGoAllocator C wi)) (snd (NewGoAllocator C wi))
                 else newFlatDatapointRecorder C wi)"
  shows "iter (fst (fst s0)) = fst (newSeriesFrameIterator C (fst rw) (snd rw))
       \<and> (no_success C cs (fst (fst s0), snd s0) \<longrightarrow>
            Current (fst (run C cs (fst (fst s0), snd s0))) = (iter (fst (fst s0)), None, None))
       \<and> (\<not> fst (Next C b w) \<longrightarrow>
            Current (fst (snd (Next C b w))) = Current b
            \<and> Current (fst (run C cs' (snd (Next C b w)))) = Current b)
       \<and> ((c = CallNext \<and> fst (Next C b w)) \<or> Current (fst (do_call C c (b, w))) = Current b)"
proof -
  have 1: "iter (fst (fst s0)) = fst (newSeriesFrameIterator C (fst rw) (snd rw))"
    by (simp add: s0_def rw_def NewSeriesBlockIterator_def Let_def split: prod.splits)
  have c0: "Current (fst (fst s0)) = (iter (fst (fst s0)), None, None)"
    using New_fields [of C rd opts wi] by (simp add: Current_def s0_def)
  have 2: "no_success C cs (fst (fst s0), snd s0) \<longrightarrow>
            Current (fst (run C cs (fst (fst s0), snd s0))) = (iter (fst (fst s0)), None, None)"
    using run_no_success [of C cs "fst (fst s0)" "snd s0"] c0 by simp
  have 3: "\<not> fst (Next C b w) \<longrightarrow>
            Current (fst (snd (Next C b w))) = Current b
            \<and> Current (fst (run C cs' (snd (Next C b w)))) = Current b"
  proof
    assume f: "\<not> fst (Next C b w)"
    obtain b' w' where s: "snd (Next C b w) = (b', w')" by (cases "snd (Next C b w)")
    from Next_False_latched [OF f] s have l: "latched b'" by simp
    from do_call_Current [of CallNext C b w] f s have "Current b' = Current b" by simp
    with run_latched [OF l, of C cs' w'] s
    show "Current (fst (snd (Next C b w))) = Current b
            \<and> Current (fst (run C cs' (snd (Next C b w)))) = Current b" by simp
  qed
  from 1 2 3 do_call_Current [of c C b w] show ?thesis by blast
qed

lemma two_done_Next: "\<not> fst (Next spec_collab (fst two_done) (snd two_done))"
  by (simp add: two_done_def two_start_def iter_defs spec_defs example_defs Let_def)

lemma two_done_Current: "Current (fst two_done) = (3, Some ''mem'', Some [(''host'', ''b'')])"
  by (simp add: two_done_def two_start_def iter_defs spec_defs example_defs Let_def)

theorem Current_total_witness:
  "no_success spec_collab [CallClose, CallNext, CallCurrent, CallNext]
     (fst (fst failing_start), snd failing_start)
   \<and> Current (fst (run spec_collab [CallClose, CallNext, CallCurrent, CallNext]
        (fst (fst failing_start), snd failing_start))) = (3, None, None)
   \<and> \<not> fst (Next spec_collab (fst two_done) (snd two_done))
   \<and> Current (fst (run spec_collab [CallNext, CallClose, CallNext]
        (snd (Next spec_collab (fst two_done) (snd two_done)))))
      = (3, Some ''mem'', Some [(''host'', ''b'')])"
proof -
  have n: "no_success spec_collab [CallClose, CallNext, CallCurrent, CallNext]
     (fst (fst failing_start), snd failing_start)"
    by (simp add: failing_start_def iter_defs spec_defs example_defs Let_def)
  have i: "iter (fst (fst failing_start)) = 3"
    by (simp add: failing_start_def iter_defs spec_defs example_defs Let_def)
  note t = Current_total [where C = spec_collab and rd = 0 and opts = example_opts
      and wi = failing_store and cs = "[CallClose, CallNext, CallCurrent, CallNext]"
      and b = "fst two_done" and w = "snd two_done" and cs' = "[CallNext, CallClose, CallNext]",
      folded failing_start_def]
  from t n i two_done_Next two_done_Current show ?thesis by simp
qed

section \<open>Err\<close>

text \<open>
  C2, as amended. \<^verbatim>\<open>Err()\<close> of the series block iterator is nil after construction,
  \<^verbatim>\<open>Close()\<close> leaves it as it is, and \<^verbatim>\<open>Next()\<close> changes it only when the iterator is
  not latched and the reader's \<^verbatim>\<open>Next()\<close> returns false: then it is the reader's
  \<^verbatim>\<open>Err()\<close>. No error of the cross-block iterator or of the frame iterator enters it.
\<close>

theorem Err_only_from_reader:
  "Err (fst (fst (NewSeriesBlockIterator C rd opts wi))) = None
   \<and> Err (fst (snd (Next C b w)))
       = (if latched b \<or> fst (reader_Next C (reader b) w) then Err b
          else reader_Err C (reader b) (snd (reader_Next C (reader b) w)))
   \<and> Err (fst (snd (Close C b w))) = Err b"
  by (auto simp: Close_struct New_fields Err_def Next_def latched_def Let_def split: prod.splits)

text \<open>
  The first series has a corrupt block. The frame iterator meets it: the cross-block
  iterator and the frame iterator both report the decode error, \<^verbatim>\<open>Err()\<close> of the series
  block iterator is nil, and the next \<^verbatim>\<open>Next()\<close> moves on to the second series.
\<close>

theorem Err_propagation_counterexample:
  "fst two_positioned
   \<and> \<not> fst two_pulled
   \<and> sp_blockIter_Err (blockIter (fst (snd two_positioned))) (snd two_pulled) = Some ''checksum''
   \<and> sp_iter_Err (iter (fst (snd two_positioned))) (snd two_pulled) = Some ''checksum''
   \<and> Err (fst (snd two_positioned)) = None
   \<and> fst two_moved
   \<and> Err (fst (snd two_moved)) = None"
  by (simp add: two_start_def two_positioned_def two_pulled_def two_moved_def
      sp_iter_Next_def sp_iter_Err_def sp_blockIter_Err_def start_frame_def frame_index_def
      iter_defs spec_defs example_defs Let_def)

theorem Err_only_from_reader_witness:
  "Err (fst (snd (Next spec_collab (fst (fst failing_start)) (snd failing_start)))) = Some ''disk''
   \<and> Err (fst (snd two_moved)) = None"
proof -
  have r: "\<not> fst (reader_Next spec_collab (reader (fst (fst failing_start))) (snd failing_start))"
    "reader_Err spec_collab (reader (fst (fst failing_start)))
       (snd (reader_Next spec_collab (reader (fst (fst failing_start))) (snd failing_start))) = Some ''disk''"
    "\<not> latched (fst (fst failing_start))"
    by (simp_all add: failing_start_def iter_defs spec_defs example_defs Let_def)
  have m: "fst (reader_Next spec_collab (reader (fst (snd two_positioned))) (snd two_pulled))"
    "Err (fst (snd two_positioned)) = None"
    by (simp_all add: two_start_def two_positioned_def two_pulled_def
        sp_iter_Next_def start_frame_def frame_index_def
        iter_defs spec_defs example_defs Let_def)
  from Err_only_from_reader [of spec_collab 0 example_opts failing_store
      "fst (fst failing_start)" "snd failing_start"]
    Err_only_from_reader [of spec_collab 0 example_opts failing_store
      "fst (snd two_positioned)" "snd two_pulled"] r m
  show ?thesis by (simp add: two_moved_def)
qed

section \<open>Windowing\<close>

text \<open>\<open>frames\<close> as one pass over the readings.\<close>



lemma frames_Nil: "frames st sp cur [] = (case cur of None \<Rightarrow> [] | Some f \<Rightarrow> [f])"
  by (simp add: frames.simps split: option.splits)

lemma frames_Point:
  "st \<le> timestamp d \<Longrightarrow>
   frames st sp cur (Point d # rs) =
     (case cur of
        None \<Rightarrow> frames st sp (Some (start_frame st sp d)) rs
      | Some f \<Rightarrow>
          (if fr_index f < frame_index st sp (timestamp d)
           then f # frames st sp (Some (start_frame st sp d)) rs
           else frames st sp (Some (f\<lparr>fr_points := fr_points f @ [d]\<rparr>)) rs))"
proof (cases cur)
  case None
  assume "st \<le> timestamp d"
  then show ?thesis unfolding None
    by (subst frames.simps) (simp add: frames.simps [of st sp "Some y" rs for y])
next
  case (Some f)
  assume "st \<le> timestamp d"
  then show ?thesis unfolding Some
    by (subst frames.simps) (simp add: frames.simps [of st sp "Some y" rs for y])
qed

lemma frame_index_mono:
  "0 < sp \<Longrightarrow> t \<le> t' \<Longrightarrow> frame_index st sp t \<le> frame_index st sp t'"
  by (simp add: frame_index_def zdiv_mono1)

lemma frame_index_boundary: "0 < sp \<Longrightarrow> frame_index st sp (st + k * sp) = k"
  by (simp add: frame_index_def)

lemma frames_ok:
  assumes "0 < sp" and "sorted (map timestamp ds)" and "\<forall>d \<in> set ds. st \<le> timestamp d"
    and "case cur of None \<Rightarrow> True
         | Some f \<Rightarrow> frame_ok st sp f \<and> (\<forall>d \<in> set ds. fr_index f \<le> frame_index st sp (timestamp d))"
  shows "\<forall>f \<in> set (frames st sp cur (map Point ds)). frame_ok st sp f"
  using assms(2-)
proof (induction ds arbitrary: cur)
  case Nil
  then show ?case by (simp add: frames_Nil split: option.splits)
next
  case (Cons d ds)
  have later: "\<forall>d' \<in> set ds. frame_index st sp (timestamp d) \<le> frame_index st sp (timestamp d')"
    using Cons.prems(1) assms(1) by (auto intro: frame_index_mono)
  have fresh_ok: "case Some (start_frame st sp d) of None \<Rightarrow> True
         | Some f \<Rightarrow> frame_ok st sp f \<and> (\<forall>d \<in> set ds. fr_index f \<le> frame_index st sp (timestamp d))"
    using later by (simp add: start_frame_def frame_ok_def)
  have s: "sorted (map timestamp ds)" and g: "\<forall>d \<in> set ds. st \<le> timestamp d" and g0: "st \<le> timestamp d"
    using Cons.prems by simp_all
  show ?case
  proof (cases cur)
    case None
    with Cons.IH [OF s g fresh_ok] g0 show ?thesis by (simp add: frames_Point)
  next
    case (Some f)
    with Cons.prems(3) have fo: "frame_ok st sp f"
      and fb: "fr_index f \<le> frame_index st sp (timestamp d)"
      and fr: "\<forall>d' \<in> set ds. fr_index f \<le> frame_index st sp (timestamp d')" by simp_all
    show ?thesis
    proof (cases "fr_index f < frame_index st sp (timestamp d)")
      case True
      with Cons.IH [OF s g fresh_ok] g0 Some fo show ?thesis by (simp add: frames_Point)
    next
      case False
      with fb have eq: "frame_index st sp (timestamp d) = fr_index f" by simp
      have "case Some (f\<lparr>fr_points := fr_points f @ [d]\<rparr>) of None \<Rightarrow> True
         | Some f \<Rightarrow> frame_ok st sp f \<and> (\<forall>d \<in> set ds. fr_index f \<le> frame_index st sp (timestamp d))"
        using fo fr eq by (simp add: frame_ok_def)
      from Cons.IH [OF s g this] g0 Some False show ?thesis by (simp add: frames_Point)
    qed
  qed
qed

lemma frames_cover:
  assumes "\<forall>d \<in> set ds. st \<le> timestamp d"
    and "d \<in> (case cur of None \<Rightarrow> {} | Some f \<Rightarrow> set (fr_points f)) \<union> set ds"
  shows "\<exists>f \<in> set (frames st sp cur (map Point ds)). d \<in> set (fr_points f)"
  using assms
proof (induction ds arbitrary: cur)
  case Nil
  then show ?case by (auto simp: frames_Nil split: option.splits)
next
  case (Cons x ds)
  then have g: "\<forall>d \<in> set ds. st \<le> timestamp d" and g0: "st \<le> timestamp x" by simp_all
  show ?case
  proof (cases cur)
    case None
    with Cons.prems(2) have "d \<in> (case Some (start_frame st sp x) of None \<Rightarrow> {} | Some f \<Rightarrow> set (fr_points f)) \<union> set ds"
      by (auto simp: start_frame_def)
    from Cons.IH [OF g this] g0 None show ?thesis by (simp add: frames_Point)
  next
    case (Some f)
    show ?thesis
    proof (cases "fr_index f < frame_index st sp (timestamp x)")
      case True
      show ?thesis
      proof (cases "d \<in> set (fr_points f)")
        case True
        with \<open>fr_index f < frame_index st sp (timestamp x)\<close> g0 Some show ?thesis
          by (simp add: frames_Point)
      next
        case False
        with Cons.prems(2) Some
        have "d \<in> (case Some (start_frame st sp x) of None \<Rightarrow> {} | Some f \<Rightarrow> set (fr_points f)) \<union> set ds"
          by (auto simp: start_frame_def)
        from Cons.IH [OF g this] g0 Some True show ?thesis by (simp add: frames_Point)
      qed
    next
      case False
      from Cons.prems(2) Some
      have "d \<in> (case Some (f\<lparr>fr_points := fr_points f @ [x]\<rparr>) of None \<Rightarrow> {} | Some f \<Rightarrow> set (fr_points f)) \<union> set ds"
        by auto
      from Cons.IH [OF g this] g0 Some False show ?thesis by (simp add: frames_Point)
    qed
  qed
qed

text \<open>
  C8. For a start \<open>T0\<close>, a step \<open>S > 0\<close> and \<open>k \<ge> 0\<close>: when the frame iterator windows a
  series whose datapoints are in timestamp order and none before the start, a datapoint
  at \<open>T0 + k * S\<close> is in a frame of index \<open>k\<close>, and in no frame of index \<open>k - 1\<close>.
\<close>

theorem boundary_inclusion:
  assumes "0 < S" and "0 \<le> k"
    and "sorted (map timestamp ds)" and "\<forall>x \<in> set ds. T0 \<le> timestamp x"
    and "d \<in> set ds" and "timestamp d = T0 + k * S"
  shows "(\<exists>f \<in> set (frames T0 S None (map Point ds)). fr_index f = k \<and> d \<in> set (fr_points f))
       \<and> (\<forall>f \<in> set (frames T0 S None (map Point ds)). fr_index f = k - 1 \<longrightarrow> d \<notin> set (fr_points f))"
proof -
  have ok: "\<forall>f \<in> set (frames T0 S None (map Point ds)). frame_ok T0 S f"
    using frames_ok [OF assms(1) assms(3) assms(4), of None] by simp
  have ix: "frame_index T0 S (timestamp d) = k"
    using assms(1,6) by (simp add: frame_index_boundary)
  from frames_cover [OF assms(4), of d None S] assms(5)
  obtain f where f: "f \<in> set (frames T0 S None (map Point ds))" "d \<in> set (fr_points f)" by auto
  with ok ix have "fr_index f = k" by (auto simp: frame_ok_def)
  with f have 1: "\<exists>f \<in> set (frames T0 S None (map Point ds)). fr_index f = k \<and> d \<in> set (fr_points f)"
    by blast
  have 2: "\<forall>f \<in> set (frames T0 S None (map Point ds)). fr_index f = k - 1 \<longrightarrow> d \<notin> set (fr_points f)"
  proof (intro ballI impI notI)
    fix f
    assume m: "f \<in> set (frames T0 S None (map Point ds))"
      and i: "fr_index f = k - 1" and c: "d \<in> set (fr_points f)"
    from ok m have "frame_ok T0 S f" by (rule bspec)
    then have "\<forall>x \<in> set (fr_points f). frame_index T0 S (timestamp x) = fr_index f"
      by (simp only: frame_ok_def)
    from this c have "frame_index T0 S (timestamp d) = fr_index f" by (rule bspec)
    with ix i show False by simp
  qed
  from 1 2 show ?thesis by (rule conjI)
qed

text \<open>The end-to-end scenario of the specification: datapoints at 1, 9, 10, 19 and 25 with
  step 10 give three frames.\<close>

lemma example_frames:
  "frames 0 10 None (map Point [dp 1, dp 9, dp 10, dp 19, dp 25])
   = [\<lparr>fr_index = 0, fr_points = [dp 1, dp 9]\<rparr>, \<lparr>fr_index = 1, fr_points = [dp 10, dp 19]\<rparr>,
      \<lparr>fr_index = 2, fr_points = [dp 25]\<rparr>]"
  by (simp add: frames_Point frames_Nil dp_def start_frame_def frame_index_def)

theorem boundary_inclusion_witness:
  "(0::int) < 10 \<and> (0::int) \<le> 1 \<and> sorted (map timestamp [dp 1, dp 9, dp 10, dp 19, dp 25])
   \<and> dp 10 \<in> set [dp 1, dp 9, dp 10, dp 19, dp 25] \<and> timestamp (dp 10) = 0 + 1 * 10
   \<and> frames 0 10 None (map Point [dp 1, dp 9, dp 10, dp 19, dp 25])
     = [\<lparr>fr_index = 0, fr_points = [dp 1, dp 9]\<rparr>, \<lparr>fr_index = 1, fr_points = [dp 10, dp 19]\<rparr>,
        \<lparr>fr_index = 2, fr_points = [dp 25]\<rparr>]
   \<and> (\<exists>f \<in> set (frames 0 10 None (map Point [dp 1, dp 9, dp 10, dp 19, dp 25])).
         fr_index f = 1 \<and> dp 10 \<in> set (fr_points f))
   \<and> dp 10 \<notin> set (fr_points \<lparr>fr_index = 0, fr_points = [dp 1, dp 9]\<rparr>)"
proof -
  have h: "(0::int) < 10" "(0::int) \<le> 1" "sorted (map timestamp [dp 1, dp 9, dp 10, dp 19, dp 25])"
    "\<forall>x \<in> set [dp 1, dp 9, dp 10, dp 19, dp 25]. 0 \<le> timestamp x"
    "dp 10 \<in> set [dp 1, dp 9, dp 10, dp 19, dp 25]" "timestamp (dp 10) = 0 + 1 * 10"
    by (simp_all add: dp_def)
  have a: "\<exists>f \<in> set (frames 0 10 None (map Point [dp 1, dp 9, dp 10, dp 19, dp 25])).
         fr_index f = 1 \<and> dp 10 \<in> set (fr_points f)"
    using boundary_inclusion [OF h] by (rule conjunct1)
  have b: "dp 10 \<notin> set (fr_points \<lparr>fr_index = 0, fr_points = [dp 1, dp 9]\<rparr>)"
    by (simp add: dp_def)
  show ?thesis
    by (intro conjI h(1) h(2) h(3) h(5) h(6) example_frames a b)
qed

section \<open>Closing twice\<close>

text \<open>What the release of a recorder and the two closes leave in place.\<close>

lemma release_released: "released a w \<Longrightarrow> sp_release a w = w"
  by (auto simp: released_def sp_release_def split: option.splits obj.splits)

lemma released_release: "released a (sp_release a w)"
  by (auto simp: released_def sp_release_def put_def Let_def split: option.splits obj.splits)

lemma released_release_other: "released a w \<Longrightarrow> released a (sp_release a' w)"
  by (auto simp: released_def sp_release_def put_def Let_def split: option.splits obj.splits if_splits)

lemma released_blockIter_Close: "released a w \<Longrightarrow> released a (sp_blockIter_Close a' w)"
  by (auto simp: released_def sp_blockIter_Close_def put_def split: option.splits obj.splits if_splits)

lemma released_put_FrameIter: "released a w \<Longrightarrow> released a (put a' (FrameIter f) w)"
  by (auto simp: released_def put_def split: option.splits obj.splits if_splits)

lemma released_iter_Close: "released a w \<Longrightarrow> released a (snd (sp_iter_Close a' w))"
  by (auto simp: sp_iter_Close_def released_release_other released_put_FrameIter
      split: option.splits obj.splits)

lemma FrameIter_release:
  "objs (sp_release a w) x = Some (FrameIter f) \<longleftrightarrow> objs w x = Some (FrameIter f)"
  by (auto simp: sp_release_def put_def Let_def split: option.splits obj.splits if_splits)

lemma FrameIter_blockIter_Close:
  "objs (sp_blockIter_Close a w) x = Some (FrameIter f) \<longleftrightarrow> objs w x = Some (FrameIter f)"
  by (auto simp: sp_blockIter_Close_def put_def split: option.splits obj.splits if_splits)

lemma returned_blockIter_Close: "returned_at al (sp_blockIter_Close a w) = returned_at al w"
  by (auto simp: returned_at_def sp_blockIter_Close_def put_def split: option.splits obj.splits)

lemma returned_put_FrameIter:
  "objs w a = Some (FrameIter g) \<Longrightarrow> returned_at al (put a (FrameIter f) w) = returned_at al w"
  by (auto simp: returned_at_def put_def split: option.splits obj.splits)

text \<open>After a \<^verbatim>\<open>Close\<close> of the frame iterator, its recorder is released.\<close>

lemma iter_Close_released:
  "objs (snd (sp_iter_Close a w)) a = Some (FrameIter f) \<Longrightarrow>
   released (fi_recorder f) (snd (sp_iter_Close a w))"
  by (auto simp: sp_iter_Close_def FrameIter_release released_release put_def
      split: option.splits obj.splits if_splits)

lemma iter_Close_again:
  assumes "\<And>f. objs w a = Some (FrameIter f) \<Longrightarrow> released (fi_recorder f) w"
  shows "fst (sp_iter_Close a w) = None
       \<and> returned_at al (snd (sp_iter_Close a w)) = returned_at al w"
proof (cases "objs w a")
  case None
  then show ?thesis by (simp add: sp_iter_Close_def)
next
  case (Some x)
  show ?thesis
  proof (cases x)
    case (FrameIter f)
    with Some assms have "released (fi_recorder f) w" by simp
    then have "released (fi_recorder f) (put a (FrameIter (f\<lparr>fi_buffered := None, fi_frame := None\<rparr>)) w)"
      by (rule released_put_FrameIter)
    from release_released [OF this] Some FrameIter show ?thesis
      by (simp add: sp_iter_Close_def returned_put_FrameIter)
  qed (use Some in \<open>simp_all add: sp_iter_Close_def\<close>)
qed

lemma Close_spec:
  "Close spec_collab b w =
     (fst (sp_iter_Close (iter b) (sp_blockIter_Close (blockIter b) (sp_release (recorder b) w))),
      b,
      snd (sp_iter_Close (iter b) (sp_blockIter_Close (blockIter b) (sp_release (recorder b) w))))"
  by (simp add: Close_def spec_collab_def Let_def split: prod.splits)

lemma second_Close:
  fixes b w
  defines "c1 \<equiv> Close spec_collab b w"
  defines "c2 \<equiv> Close spec_collab (fst (snd c1)) (snd (snd c1))"
  shows "fst c2 = None \<and> returned_at al (snd (snd c2)) = returned_at al (snd (snd c1))"
proof -
  let ?w3 = "snd (sp_iter_Close (iter b) (sp_blockIter_Close (blockIter b) (sp_release (recorder b) w)))"
  have c1: "fst (snd c1) = b" "snd (snd c1) = ?w3" by (simp_all add: c1_def Close_spec)
  have r: "released (recorder b) ?w3"
    by (intro released_iter_Close released_blockIter_Close released_release)
  have fr: "\<And>f. objs ?w3 (iter b) = Some (FrameIter f) \<Longrightarrow> released (fi_recorder f) ?w3"
    by (rule iter_Close_released)
  let ?w4 = "sp_blockIter_Close (blockIter b) ?w3"
  have "\<And>f. objs ?w4 (iter b) = Some (FrameIter f) \<Longrightarrow> released (fi_recorder f) ?w4"
    using fr by (simp add: FrameIter_blockIter_Close released_blockIter_Close)
  from iter_Close_again [of ?w4 "iter b" al, OF this]
  have "fst (sp_iter_Close (iter b) ?w4) = None
      \<and> returned_at al (snd (sp_iter_Close (iter b) ?w4)) = returned_at al ?w3"
    by (simp add: returned_blockIter_Close)
  with c1 release_released [OF r] show ?thesis
    by (simp add: c2_def Close_spec)
qed

lemma first_Close:
  assumes "objs w (recorder b) = Some (Recorder r)" and "rec_alloc r = Some al" and "holds r"
    and "objs w al = Some (Allocator m)"
    and "objs w (iter b) = Some (FrameIter f)" and "fi_recorder f = recorder b"
  shows "returned_at al (snd (snd (Close spec_collab b w))) = Suc (returned_at al w)"
proof -
  let ?w1 = "sp_release (recorder b) w"
  have ne: "al \<noteq> recorder b" using assms(1,4) by auto
  have w1: "returned_at al ?w1 = Suc (returned_at al w)"
    using assms ne by (simp add: sp_release_def put_def returned_at_def Let_def)
  let ?w2 = "sp_blockIter_Close (blockIter b) ?w1"
  have rel: "released (recorder b) ?w2"
    by (intro released_blockIter_Close released_release)
  have "objs ?w2 (iter b) = Some (FrameIter f)"
    using assms(5) by (simp add: FrameIter_blockIter_Close FrameIter_release)
  with rel assms(6) have "\<And>g. objs ?w2 (iter b) = Some (FrameIter g) \<Longrightarrow> released (fi_recorder g) ?w2"
    by simp
  from iter_Close_again [of ?w2 "iter b" al, OF this] w1 show ?thesis
    by (simp add: Close_spec returned_blockIter_Close)
qed

text \<open>
  C6. On the collaborators of the specification, with a columnar recorder that holds
  storage of the allocator \<open>al\<close> and the frame iterator built on that recorder (the state
  the constructor sets up): \<^verbatim>\<open>Close()\<close> returns one allocation to \<open>al\<close>, a second
  \<^verbatim>\<open>Close()\<close> returns nothing to any allocator, and the second call returns no error.
\<close>

theorem Close_twice_releases_once:
  fixes b w al
  defines "c1 \<equiv> Close spec_collab b w"
  defines "c2 \<equiv> Close spec_collab (fst (snd c1)) (snd (snd c1))"
  assumes "objs w (recorder b) = Some (Recorder r)" and "rec_alloc r = Some al" and "holds r"
    and "objs w al = Some (Allocator m)"
    and "objs w (iter b) = Some (FrameIter f)" and "fi_recorder f = recorder b"
  shows "returned_at al (snd (snd c1)) = Suc (returned_at al w)
       \<and> returned_at al (snd (snd c2)) = Suc (returned_at al w)
       \<and> (\<forall>a. returned_at a (snd (snd c2)) = returned_at a (snd (snd c1)))
       \<and> fst c2 = None"
  using first_Close [OF assms(3-8)] second_Close [of b w]
  by (simp add: c1_def c2_def)

theorem Close_twice_releases_once_witness:
  "returned_at 1 (snd two_start) = 0
   \<and> returned_at 1 (snd (snd two_closed)) = 1
   \<and> returned_at 1 (snd (snd two_closed_again)) = 1
   \<and> fst two_closed_again = None"
proof -
  have h: "objs (snd two_start) (recorder (fst (fst two_start)))
             = Some (Recorder \<lparr>rec_alloc = Some 1, points = [], holds = True\<rparr>)"
    "rec_alloc \<lparr>rec_alloc = Some 1, points = [], holds = True\<rparr> = Some 1"
    "holds \<lparr>rec_alloc = Some 1, points = [], holds = True\<rparr>"
    "objs (snd two_start) 1 = Some (Allocator \<lparr>outstanding = 1, returned = 0\<rparr>)"
    "objs (snd two_start) (iter (fst (fst two_start)))
       = Some (FrameIter \<lparr>fi_recorder = 2, fi_start = 0, fi_step = 0, fi_source = None,
                          fi_buffered = None, fi_frame = None, fi_err = None\<rparr>)"
    "fi_recorder \<lparr>fi_recorder = 2, fi_start = 0, fi_step = 0, fi_source = None,
                   fi_buffered = None, fi_frame = None, fi_err = None\<rparr>
       = recorder (fst (fst two_start))"
    by (simp_all add: two_start_def iter_defs spec_defs example_defs Let_def)
  have z: "returned_at 1 (snd two_start) = 0"
    using h(4) by (simp add: returned_at_def)
  from Close_twice_releases_once [OF h] z show ?thesis
    by (simp add: two_closed_def two_closed_again_def)
qed

end
